theory Spec2Isabelle
  imports Complex_Main
begin

section \<open>The OpenAI content generator of sepilot-cli\<close>

text \<open>
  A shallow embedding of \<^verbatim>\<open>packages/core/src/core/openAIContentGenerator.ts\<close>: the class
  that translates Gemini requests (contents made of parts) into OpenAI chat-completion
  requests and translates completions and stream chunks back.

  The source is dynamically typed in the places that matter (\<^verbatim>\<open>contents: any\<close>,
  \<^verbatim>\<open>(request as any).config\<close>), and tells shapes apart by the keys an object carries.
  The embedding keeps that: one datatype holds every object the code inspects, with one
  optional field per key the code reads. A field is optional exactly where the code
  guards it (\<^verbatim>\<open>'text' in part\<close>, \<^verbatim>\<open>content.parts || []\<close>, \<^verbatim>\<open>name || ''\<close>); \<open>None\<close> is
  an absent key (reading it gives \<^verbatim>\<open>undefined\<close>). Values the code reads without a guard
  have the type the data model gives them.

  What the JavaScript runtime and the network do is a parameter of the functions that
  use it: \<open>stringify\<close> is \<^verbatim>\<open>JSON.stringify\<close> on a JSON value, \<open>parse\<close> is
  \<^verbatim>\<open>JSON.parse\<close> (\<open>None\<close> when it throws SyntaxError), \<open>rnd k\<close> is the string
  that the \<open>k\<close>-th evaluation of \<^verbatim>\<open>Math.random().toString(36)\<close> yields, and
  \<open>create\<close> is \<^verbatim>\<open>openai.chat.completions.create\<close>.
\<close>

subsection \<open>Values\<close>

datatype json =
    JNull
  | JBool bool
  | JNum real
  | JStr string
  | JArr "json list"
  | JObj "(string \<times> json) list"

text \<open>JavaScript truthiness of a JSON value (\<^verbatim>\<open>if (v)\<close>, \<^verbatim>\<open>v || d\<close>).\<close>

fun truthy :: "json \<Rightarrow> bool" where
  "truthy JNull = False"
| "truthy (JBool b) = b"
| "truthy (JNum x) = (x \<noteq> 0)"
| "truthy (JStr s) = (s \<noteq> [])"
| "truthy (JArr xs) = True"
| "truthy (JObj kvs) = True"

text \<open>\<^verbatim>\<open>s || d\<close> for an optional string: the empty string is falsy.\<close>

fun or_else :: "string option \<Rightarrow> string \<Rightarrow> string" where
  "or_else None d = d"
| "or_else (Some s) d = (if s \<noteq> [] then s else d)"

text \<open>\<^verbatim>\<open>xs.join(sep)\<close> on an array of strings.\<close>

fun join :: "string \<Rightarrow> string list \<Rightarrow> string" where
  "join sep [] = []"
| "join sep [x] = x"
| "join sep (x # y # ys) = x @ sep @ join sep (y # ys)"

definition newline :: string where
  "newline = [CHR 0x0A]"

text \<open>\<^verbatim>\<open>s.substr(start, len)\<close> with a start and a length that are not negative.\<close>

definition substr :: "nat \<Rightarrow> nat \<Rightarrow> string \<Rightarrow> string" where
  "substr start len s = take len (drop start s)"

datatype error = TypeError | SyntaxError | TransportFailure string

subsection \<open>Gemini contents and parts\<close>

record inline_data =
  mimeType :: string
  data :: string

record function_call =
  fc_name :: "string option"
  fc_args :: json

record function_response =
  fr_name :: "string option"
  fr_response :: json

text \<open>
  \<open>Str s\<close> is a JavaScript string (the code accepts a bare string wherever it accepts a
  part). \<open>Obj\<close> is an object with the keys \<^verbatim>\<open>role\<close>, \<^verbatim>\<open>parts\<close>, \<^verbatim>\<open>text\<close>, \<^verbatim>\<open>inlineData\<close>,
  \<^verbatim>\<open>functionCall\<close>, \<^verbatim>\<open>functionResponse\<close>, in this order, each present or absent. A Content
  is an object read through \<^verbatim>\<open>role\<close> and \<^verbatim>\<open>parts\<close>, a Part one read through the other four.
\<close>

datatype content_union =
    Str string
  | Obj "string option" "content_union list option" "string option"
        "inline_data option" "function_call option" "function_response option"

fun is_object :: "content_union \<Rightarrow> bool" where
  "is_object (Str s) = False"
| "is_object (Obj r ps t i fc fr) = True"

text \<open>Reading a key; a string primitive has none of them.\<close>

fun get_role :: "content_union \<Rightarrow> string option" where
  "get_role (Str s) = None"
| "get_role (Obj r ps t i fc fr) = r"

fun get_parts :: "content_union \<Rightarrow> content_union list option" where
  "get_parts (Str s) = None"
| "get_parts (Obj r ps t i fc fr) = ps"

fun get_text :: "content_union \<Rightarrow> string option" where
  "get_text (Str s) = None"
| "get_text (Obj r ps t i fc fr) = t"

fun get_inlineData :: "content_union \<Rightarrow> inline_data option" where
  "get_inlineData (Str s) = None"
| "get_inlineData (Obj r ps t i fc fr) = i"

fun get_functionCall :: "content_union \<Rightarrow> function_call option" where
  "get_functionCall (Str s) = None"
| "get_functionCall (Obj r ps t i fc fr) = fc"

fun get_functionResponse :: "content_union \<Rightarrow> function_response option" where
  "get_functionResponse (Str s) = None"
| "get_functionResponse (Obj r ps t i fc fr) = fr"

text \<open>The object literals the code builds.\<close>

definition turn :: "string \<Rightarrow> content_union list \<Rightarrow> content_union" where
  "turn r ps = Obj (Some r) (Some ps) None None None None"

definition text_part :: "string \<Rightarrow> content_union" where
  "text_part s = Obj None None (Some s) None None None"

definition function_call_part :: "string option \<Rightarrow> json \<Rightarrow> content_union" where
  "function_call_part n a = Obj None None None None (Some \<lparr>fc_name = n, fc_args = a\<rparr>) None"

definition function_response_part :: "string option \<Rightarrow> json \<Rightarrow> content_union" where
  "function_response_part n v =
     Obj None None None None None (Some \<lparr>fr_name = n, fr_response = v\<rparr>)"

text \<open>What \<^verbatim>\<open>request.contents\<close> can be: an array, or a single string, Content or Part.\<close>

datatype content_list_union =
    Array "content_union list"
  | Single content_union

subsection \<open>normalizeContents\<close>

text \<open>
  \<^verbatim>\<open>contents[0] && typeof contents[0] === 'object' && 'role' in contents[0]\<close>.
\<close>

fun exposes_role :: "content_union \<Rightarrow> bool" where
  "exposes_role (Str s) = False"
| "exposes_role (Obj r ps t i fc fr) = (r \<noteq> None)"

fun normalizeContents :: "content_list_union \<Rightarrow> content_union list" where
  "normalizeContents (Array cs) =
     (case cs of
        [] \<Rightarrow> cs
      | c # rest \<Rightarrow> if exposes_role c then cs else [turn ''user'' cs])"
| "normalizeContents (Single (Str s)) = [turn ''user'' [text_part s]]"
| "normalizeContents (Single c) = [turn ''user'' [c]]"

subsection \<open>OpenAI request messages\<close>

datatype content_part =
    TextBlock string
  | ImageUrlBlock string

datatype message_content =
    CNull
  | CStr string
  | CParts "content_part list"

datatype message_role = System | User | Assistant | Tool

text \<open>
  One entry of \<^verbatim>\<open>tool_calls\<close>: \<^verbatim>\<open>{id, type: 'function', function: {name, arguments}}\<close>.
\<close>

record tool_call =
  tc_id :: string
  tc_name :: string
  tc_arguments :: string

text \<open>
  A request message. \<open>tool_calls\<close> and \<open>tool_call_id\<close> are \<open>None\<close> where the object
  literal has no such key.
\<close>

record message_param =
  role :: message_role
  content :: message_content
  tool_calls :: "tool_call list option"
  tool_call_id :: "string option"

definition system_message :: "string \<Rightarrow> message_param" where
  "system_message s =
     \<lparr>role = System, content = CStr s, tool_calls = None, tool_call_id = None\<rparr>"

subsection \<open>convertPartsToOpenAI\<close>

text \<open>The blocks one part pushes: a string or a text part one text block, inline data
  one image block, anything else nothing.\<close>

fun part_blocks :: "content_union \<Rightarrow> content_part list" where
  "part_blocks (Str s) = [TextBlock s]"
| "part_blocks (Obj r ps t i fc fr) =
     (case t of
        Some s \<Rightarrow> [TextBlock (or_else t [])]
      | None \<Rightarrow>
          (case i of
             Some d \<Rightarrow> [ImageUrlBlock (''data:'' @ mimeType d @ '';base64,'' @ data d)]
           | None \<Rightarrow> []))"

fun is_text_block :: "content_part \<Rightarrow> bool" where
  "is_text_block (TextBlock s) = True"
| "is_text_block (ImageUrlBlock u) = False"

text \<open>\<^verbatim>\<open>(p as any).text\<close> is read only when every block is a text block.\<close>

fun block_text :: "content_part \<Rightarrow> string" where
  "block_text (TextBlock s) = s"
| "block_text (ImageUrlBlock u) = []"

definition convertPartsToOpenAI :: "content_union list \<Rightarrow> message_content" where
  "convertPartsToOpenAI ps =
     (let contentParts = concat (map part_blocks ps) in
      if list_all is_text_block contentParts
      then CStr (join newline (map block_text contentParts))
      else CParts contentParts)"

subsection \<open>convertToOpenAIMessages\<close>

text \<open>
  \<^verbatim>\<open>`call_${Math.random().toString(36).substr(2, 9)}`\<close>, from the string \<open>r\<close> that
  \<^verbatim>\<open>Math.random().toString(36)\<close> gave.
\<close>

definition call_id :: "string \<Rightarrow> string" where
  "call_id r = ''call_'' @ substr 2 9 r"

text \<open>
  The loop over the parts of a model turn. It returns \<^verbatim>\<open>textParts\<close>, \<^verbatim>\<open>toolCalls\<close> and
  the number of random draws made so far; \<open>k\<close> is that number when the loop starts.
\<close>

fun model_parts ::
  "(json \<Rightarrow> string) \<Rightarrow> (nat \<Rightarrow> string) \<Rightarrow> nat \<Rightarrow> content_union list
     \<Rightarrow> string list \<times> tool_call list \<times> nat" where
  "model_parts stringify rnd k [] = ([], [], k)"
| "model_parts stringify rnd k (Str s # ps) =
     (case model_parts stringify rnd k ps of (ts, cs, k') \<Rightarrow> (s # ts, cs, k'))"
| "model_parts stringify rnd k (Obj r qs t i fc fr # ps) =
     (case t of
        Some s \<Rightarrow>
          (case model_parts stringify rnd k ps of
             (ts, cs, k') \<Rightarrow> (or_else t [] # ts, cs, k'))
      | None \<Rightarrow>
          (case fc of
             Some f \<Rightarrow>
               (case model_parts stringify rnd (Suc k) ps of
                  (ts, cs, k') \<Rightarrow>
                    (ts,
                     \<lparr>tc_id = call_id (rnd k),
                      tc_name = or_else (fc_name f) [],
                      tc_arguments = stringify (fc_args f)\<rparr> # cs,
                     k'))
           | None \<Rightarrow> model_parts stringify rnd k ps))"

text \<open>The assistant message of a model turn, from \<^verbatim>\<open>content.parts\<close>.\<close>

definition assistant_message ::
  "(json \<Rightarrow> string) \<Rightarrow> (nat \<Rightarrow> string) \<Rightarrow> nat \<Rightarrow> content_union list option
     \<Rightarrow> message_param \<times> nat" where
  "assistant_message stringify rnd k parts =
     (case parts of
        None \<Rightarrow>
          (\<lparr>role = Assistant, content = CNull, tool_calls = None, tool_call_id = None\<rparr>, k)
      | Some ps \<Rightarrow>
          (case model_parts stringify rnd k ps of
             (textParts, toolCalls, k') \<Rightarrow>
               (\<lparr>role = Assistant,
                 content =
                   (if length textParts > 0 then CStr (join newline textParts)
                    else if length toolCalls = 0 then CStr []
                    else CNull),
                 tool_calls = (if length toolCalls > 0 then Some toolCalls else None),
                 tool_call_id = None\<rparr>,
                k')))"

text \<open>The tool messages of a function turn: one per part that carries a
  \<^verbatim>\<open>functionResponse\<close>.\<close>

fun tool_messages :: "(json \<Rightarrow> string) \<Rightarrow> content_union list \<Rightarrow> message_param list" where
  "tool_messages stringify [] = []"
| "tool_messages stringify (p # ps) =
     (case get_functionResponse p of
        Some fr \<Rightarrow>
          \<lparr>role = Tool,
           content = CStr (stringify (fr_response fr)),
           tool_calls = None,
           tool_call_id = Some (or_else (fr_name fr) [])\<rparr> # tool_messages stringify ps
      | None \<Rightarrow> tool_messages stringify ps)"

text \<open>The messages one element of \<^verbatim>\<open>contents\<close> pushes, by its \<^verbatim>\<open>role\<close>.\<close>

definition content_messages ::
  "(json \<Rightarrow> string) \<Rightarrow> (nat \<Rightarrow> string) \<Rightarrow> nat \<Rightarrow> content_union
     \<Rightarrow> message_param list \<times> nat" where
  "content_messages stringify rnd k c =
     (if get_role c = Some ''user'' then
        ([\<lparr>role = User,
           content =
             convertPartsToOpenAI (case get_parts c of Some ps \<Rightarrow> ps | None \<Rightarrow> []),
           tool_calls = None, tool_call_id = None\<rparr>], k)
      else if get_role c = Some ''model'' then
        (case assistant_message stringify rnd k (get_parts c) of (m, k') \<Rightarrow> ([m], k'))
      else if get_role c = Some ''function'' then
        (case get_parts c of
           Some ps \<Rightarrow> (tool_messages stringify ps, k)
         | None \<Rightarrow> ([], k))
      else ([], k))"

fun convertToOpenAIMessages ::
  "(json \<Rightarrow> string) \<Rightarrow> (nat \<Rightarrow> string) \<Rightarrow> nat \<Rightarrow> content_union list
     \<Rightarrow> message_param list \<times> nat" where
  "convertToOpenAIMessages stringify rnd k [] = ([], k)"
| "convertToOpenAIMessages stringify rnd k (c # cs) =
     (case content_messages stringify rnd k c of
        (ms, k') \<Rightarrow>
          (case convertToOpenAIMessages stringify rnd k' cs of
             (rest, k'') \<Rightarrow> (ms @ rest, k'')))"

subsection \<open>convertToOpenAITools\<close>

record function_declaration =
  fd_name :: string
  fd_description :: "string option"
  fd_parameters :: "json option"

record tool =
  functionDeclarations :: "function_declaration list option"

text \<open>\<^verbatim>\<open>{type: 'function', function: {name, description, parameters}}\<close>.\<close>

record chat_tool =
  ct_name :: string
  ct_description :: "string option"
  ct_parameters :: json

definition declaration_tool :: "function_declaration \<Rightarrow> chat_tool" where
  "declaration_tool func =
     \<lparr>ct_name = fd_name func,
      ct_description = fd_description func,
      ct_parameters =
        (case fd_parameters func of
           Some p \<Rightarrow> if truthy p then p else JObj []
         | None \<Rightarrow> JObj [])\<rparr>"

fun tool_declarations :: "tool list \<Rightarrow> chat_tool list" where
  "tool_declarations [] = []"
| "tool_declarations (t # ts) =
     (case functionDeclarations t of
        Some fs \<Rightarrow> map declaration_tool fs @ tool_declarations ts
      | None \<Rightarrow> tool_declarations ts)"

definition convertToOpenAITools :: "tool list option \<Rightarrow> chat_tool list" where
  "convertToOpenAITools tools =
     (case tools of
        None \<Rightarrow> []
      | Some ts \<Rightarrow> if length ts = 0 then [] else tool_declarations ts)"

subsection \<open>Requests\<close>

record generate_content_config =
  temperature :: "real option"
  topP :: "real option"
  maxOutputTokens :: "nat option"
  systemInstruction :: "string option"
  responseMimeType :: "string option"
  responseJsonSchema :: "json option"

text \<open>The legacy \<^verbatim>\<open>generationConfig\<close> of a request, read for the sampling fields only.\<close>

record generation_config =
  gc_temperature :: "real option"
  gc_topP :: "real option"
  gc_maxOutputTokens :: "nat option"

record generate_content_parameters =
  contents :: content_list_union
  config :: "generate_content_config option"
  tools :: "tool list option"
  generationConfig :: "generation_config option"

text \<open>\<^verbatim>\<open>{}\<close>, which \<^verbatim>\<open>(request as any).config || {}\<close> falls back to.\<close>

definition empty_config :: generate_content_config where
  "empty_config =
     \<lparr>temperature = None, topP = None, maxOutputTokens = None, systemInstruction = None,
      responseMimeType = None, responseJsonSchema = None\<rparr>"

datatype response_format = JsonObject

text \<open>
  The argument of \<^verbatim>\<open>openai.chat.completions.create\<close>. A key whose value is
  \<^verbatim>\<open>undefined\<close> is \<open>None\<close>; \<open>p_stream\<close> is \<open>False\<close> where the literal has no \<^verbatim>\<open>stream\<close>.
\<close>

record chat_request =
  p_model :: string
  p_messages :: "message_param list"
  p_tools :: "chat_tool list option"
  p_temperature :: real
  p_top_p :: real
  p_max_tokens :: "nat option"
  p_response_format :: "response_format option"
  p_stream :: bool

text \<open>\<^verbatim>\<open>a ?? b\<close> with an optional and with a definite \<open>b\<close>, and \<^verbatim>\<open>o?.f\<close> for an
  optional object \<open>o\<close>.\<close>

fun nullish :: "'a option \<Rightarrow> 'a option \<Rightarrow> 'a option" where
  "nullish (Some a) b = Some a"
| "nullish None b = b"

fun nullish_or :: "'a option \<Rightarrow> 'a \<Rightarrow> 'a" where
  "nullish_or (Some a) d = a"
| "nullish_or None d = d"

fun opt_chain :: "'a option \<Rightarrow> ('a \<Rightarrow> 'b option) \<Rightarrow> 'b option" where
  "opt_chain None f = None"
| "opt_chain (Some x) f = f x"

text \<open>\<^verbatim>\<open>`${JSON.stringify(v)}`\<close> for an optional \<open>v\<close>: \<^verbatim>\<open>JSON.stringify(undefined)\<close> is
  \<^verbatim>\<open>undefined\<close>, which a template prints as that word.\<close>

fun stringify_or_undefined :: "(json \<Rightarrow> string) \<Rightarrow> json option \<Rightarrow> string" where
  "stringify_or_undefined stringify None = ''undefined''"
| "stringify_or_undefined stringify (Some v) = stringify v"

definition schema_instruction :: "string \<Rightarrow> string" where
  "schema_instruction schema =
     ''You must respond with valid JSON that conforms to this schema: '' @ schema @
     ''. Return ONLY the JSON object, no additional text.''"

text \<open>\<^verbatim>\<open>config.responseMimeType === 'application/json' && config.responseJsonSchema\<close>.\<close>

definition json_mode :: "generate_content_config \<Rightarrow> bool" where
  "json_mode cfg =
     (responseMimeType cfg = Some ''application/json'' \<and>
      (case responseJsonSchema cfg of Some s \<Rightarrow> truthy s | None \<Rightarrow> False))"

text \<open>
  \<^verbatim>\<open>generateContent\<close>, lines 44 to 82: the argument it passes to
  \<^verbatim>\<open>openai.chat.completions.create\<close>, and the number of random draws made. \<open>mdl\<close> is
  \<^verbatim>\<open>this.model\<close>.
\<close>

definition generateContent_request ::
  "(json \<Rightarrow> string) \<Rightarrow> (nat \<Rightarrow> string) \<Rightarrow> nat \<Rightarrow> string
     \<Rightarrow> generate_content_parameters \<Rightarrow> chat_request \<times> nat" where
  "generateContent_request stringify rnd k mdl request =
     (let cs = normalizeContents (contents request);
          cfg = (case config request of Some c \<Rightarrow> c | None \<Rightarrow> empty_config)
      in case convertToOpenAIMessages stringify rnd k cs of
        (messages0, k') \<Rightarrow>
          (let messages1 =
                 (if json_mode cfg
                  then system_message
                         (schema_instruction
                            (stringify_or_undefined stringify (responseJsonSchema cfg)))
                       # messages0
                  else messages0);
               responseFormat = (if json_mode cfg then Some JsonObject else None);
               messages2 =
                 (case systemInstruction cfg of
                    Some s \<Rightarrow> if s \<noteq> [] then system_message s # messages1 else messages1
                  | None \<Rightarrow> messages1);
               ts = convertToOpenAITools (tools request)
           in (\<lparr>p_model = mdl,
                p_messages = messages2,
                p_tools = (if length ts > 0 then Some ts else None),
                p_temperature =
                  nullish_or
                    (nullish (temperature cfg)
                       (opt_chain (generationConfig request) gc_temperature)) 0,
                p_top_p =
                  nullish_or
                    (nullish (topP cfg) (opt_chain (generationConfig request) gc_topP)) 1,
                p_max_tokens =
                  nullish (maxOutputTokens cfg)
                    (opt_chain (generationConfig request) gc_maxOutputTokens),
                p_response_format = responseFormat,
                p_stream = False\<rparr>, k')))"

text \<open>\<^verbatim>\<open>generateContentStream\<close>, lines 91 to 130: the same text again, with
  \<^verbatim>\<open>stream: true\<close>.\<close>

definition generateContentStream_request ::
  "(json \<Rightarrow> string) \<Rightarrow> (nat \<Rightarrow> string) \<Rightarrow> nat \<Rightarrow> string
     \<Rightarrow> generate_content_parameters \<Rightarrow> chat_request \<times> nat" where
  "generateContentStream_request stringify rnd k mdl request =
     (let cs = normalizeContents (contents request);
          cfg = (case config request of Some c \<Rightarrow> c | None \<Rightarrow> empty_config)
      in case convertToOpenAIMessages stringify rnd k cs of
        (messages0, k') \<Rightarrow>
          (let messages1 =
                 (if json_mode cfg
                  then system_message
                         (schema_instruction
                            (stringify_or_undefined stringify (responseJsonSchema cfg)))
                       # messages0
                  else messages0);
               responseFormat = (if json_mode cfg then Some JsonObject else None);
               messages2 =
                 (case systemInstruction cfg of
                    Some s \<Rightarrow> if s \<noteq> [] then system_message s # messages1 else messages1
                  | None \<Rightarrow> messages1);
               ts = convertToOpenAITools (tools request)
           in (\<lparr>p_model = mdl,
                p_messages = messages2,
                p_tools = (if length ts > 0 then Some ts else None),
                p_temperature =
                  nullish_or
                    (nullish (temperature cfg)
                       (opt_chain (generationConfig request) gc_temperature)) 0,
                p_top_p =
                  nullish_or
                    (nullish (topP cfg) (opt_chain (generationConfig request) gc_topP)) 1,
                p_max_tokens =
                  nullish (maxOutputTokens cfg)
                    (opt_chain (generationConfig request) gc_maxOutputTokens),
                p_response_format = responseFormat,
                p_stream = True\<rparr>, k')))"

subsection \<open>Completions and responses\<close>

text \<open>
  A tool call of a completion message: a function tool call (\<^verbatim>\<open>id\<close>, \<^verbatim>\<open>function.name\<close>,
  \<^verbatim>\<open>function.arguments\<close>) or a custom one (\<^verbatim>\<open>id\<close>, \<^verbatim>\<open>custom.name\<close>, \<^verbatim>\<open>custom.input\<close>),
  which has no \<^verbatim>\<open>function\<close> key.
\<close>

datatype message_tool_call =
    FunctionToolCall string string "string option"
  | CustomToolCall string string string

record completion_message =
  m_content :: "string option"
  m_tool_calls :: "message_tool_call list option"

record choice =
  message :: completion_message

record completion_usage =
  prompt_tokens :: nat
  completion_tokens :: nat
  total_tokens :: nat

record completion =
  choices :: "choice list"
  usage :: "completion_usage option"

record usage_metadata =
  promptTokenCount :: nat
  candidatesTokenCount :: nat
  totalTokenCount :: nat

text \<open>\<^verbatim>\<open>{content: {role: 'model', parts}, index: 0}\<close>.\<close>

record candidate =
  candidate_content :: content_union
  candidate_index :: nat

record generate_content_response =
  candidates :: "candidate list"
  usageMetadata :: "usage_metadata option"
  response_text :: string

text \<open>\<^verbatim>\<open>n || 0\<close> for an optional count (\<^verbatim>\<open>completion.usage?.prompt_tokens\<close> is
  \<open>map_option prompt_tokens (usage c)\<close>).\<close>

fun or_zero :: "nat option \<Rightarrow> nat" where
  "or_zero None = 0"
| "or_zero (Some n) = (if n \<noteq> 0 then n else 0)"

text \<open>
  The loop that sets \<^verbatim>\<open>textContent\<close>: the text of the first part that is an object,
  has the key \<^verbatim>\<open>text\<close> and a truthy text; the empty string when there is none.
\<close>

fun textContent :: "content_union list \<Rightarrow> string" where
  "textContent [] = []"
| "textContent (Str s # ps) = textContent ps"
| "textContent (Obj r qs t i fc fr # ps) =
     (case t of
        Some s \<Rightarrow> if s \<noteq> [] then s else textContent ps
      | None \<Rightarrow> textContent ps)"

subsection \<open>convertToGeminiResponse\<close>

text \<open>
  The loop over \<^verbatim>\<open>choice.message.tool_calls\<close>. \<^verbatim>\<open>JSON.parse\<close> throws SyntaxError
  on a string that is not JSON, and nothing catches it.
\<close>

fun tool_call_parts ::
  "(string \<Rightarrow> json option) \<Rightarrow> message_tool_call list \<Rightarrow> error + content_union list" where
  "tool_call_parts parse [] = Inr []"
| "tool_call_parts parse (CustomToolCall i n inp # tcs) = tool_call_parts parse tcs"
| "tool_call_parts parse (FunctionToolCall i n a # tcs) =
     (case parse (or_else a ''{}'') of
        None \<Rightarrow> Inl SyntaxError
      | Some v \<Rightarrow>
          (case tool_call_parts parse tcs of
             Inl e \<Rightarrow> Inl e
           | Inr ps \<Rightarrow> Inr (function_call_part (Some n) v # ps)))"

text \<open>
  \<^verbatim>\<open>completion.choices[0]\<close> is \<^verbatim>\<open>undefined\<close> when \<^verbatim>\<open>choices\<close> is empty, and reading
  \<^verbatim>\<open>choice.message\<close> then throws TypeError. The diagnostic print under
  \<^verbatim>\<open>process.env.DEBUG\<close> changes no value and is left out.
\<close>

definition convertToGeminiResponse ::
  "(string \<Rightarrow> json option) \<Rightarrow> completion \<Rightarrow> error + generate_content_response" where
  "convertToGeminiResponse parse c =
     (case choices c of
        [] \<Rightarrow> Inl TypeError
      | ch # rest \<Rightarrow>
          (let parts0 =
                 (case m_content (message ch) of
                    Some s \<Rightarrow> if s \<noteq> [] then [text_part s] else []
                  | None \<Rightarrow> [])
           in case (case m_tool_calls (message ch) of
                      Some tcs \<Rightarrow> tool_call_parts parse tcs
                    | None \<Rightarrow> Inr []) of
                Inl e \<Rightarrow> Inl e
              | Inr fcs \<Rightarrow>
                  Inr \<lparr>candidates =
                         [\<lparr>candidate_content = turn ''model'' (parts0 @ fcs),
                           candidate_index = 0\<rparr>],
                       usageMetadata =
                         Some \<lparr>promptTokenCount =
                                 or_zero (map_option prompt_tokens (usage c)),
                               candidatesTokenCount =
                                 or_zero (map_option completion_tokens (usage c)),
                               totalTokenCount =
                                 or_zero (map_option total_tokens (usage c))\<rparr>,
                       response_text = textContent (parts0 @ fcs)\<rparr>))"

text \<open>
  \<^verbatim>\<open>generateContent\<close>: build the request, await the transport, convert the completion.
  An error of the transport and an error of the conversion both reach the caller.
\<close>

definition generateContent ::
  "(json \<Rightarrow> string) \<Rightarrow> (string \<Rightarrow> json option) \<Rightarrow> (nat \<Rightarrow> string)
     \<Rightarrow> (chat_request \<Rightarrow> error + completion) \<Rightarrow> nat \<Rightarrow> string
     \<Rightarrow> generate_content_parameters \<Rightarrow> (error + generate_content_response) \<times> nat" where
  "generateContent stringify parse rnd create k mdl request =
     (case generateContent_request stringify rnd k mdl request of
        (params, k') \<Rightarrow>
          (case create params of
             Inl e \<Rightarrow> (Inl e, k')
           | Inr c \<Rightarrow> (convertToGeminiResponse parse c, k')))"

subsection \<open>convertStreamChunkToGeminiResponse\<close>

record delta_function =
  df_name :: "string option"
  df_arguments :: "string option"

record delta_tool_call =
  dtc_function :: "delta_function option"

record choice_delta =
  d_content :: "string option"
  d_tool_calls :: "delta_tool_call list option"

record chunk_choice =
  delta :: "choice_delta option"

record chunk =
  chunk_choices :: "chunk_choice list"

text \<open>\<^verbatim>\<open>xs[0]\<close>: \<^verbatim>\<open>undefined\<close> on an empty array.\<close>

fun first :: "'a list \<Rightarrow> 'a option" where
  "first [] = None"
| "first (x # xs) = Some x"

text \<open>
  The loop over \<^verbatim>\<open>choice.delta.tool_calls\<close>: a delta is translated only under
  \<^verbatim>\<open>if (toolCall.function?.name)\<close>, and its arguments are parsed only when truthy.
\<close>

fun delta_tool_call_parts ::
  "(string \<Rightarrow> json option) \<Rightarrow> delta_tool_call list \<Rightarrow> error + content_union list" where
  "delta_tool_call_parts parse [] = Inr []"
| "delta_tool_call_parts parse (tc # tcs) =
     (case opt_chain (dtc_function tc) df_name of
        None \<Rightarrow> delta_tool_call_parts parse tcs
      | Some n \<Rightarrow>
          if n \<noteq> [] then
            (case (case opt_chain (dtc_function tc) df_arguments of
                     None \<Rightarrow> Some (JObj [])
                   | Some a \<Rightarrow> if a \<noteq> [] then parse a else Some (JObj [])) of
               None \<Rightarrow> Inl SyntaxError
             | Some v \<Rightarrow>
                 (case delta_tool_call_parts parse tcs of
                    Inl e \<Rightarrow> Inl e
                  | Inr ps \<Rightarrow> Inr (function_call_part (Some n) v # ps)))
          else delta_tool_call_parts parse tcs)"

definition convertStreamChunkToGeminiResponse ::
  "(string \<Rightarrow> json option) \<Rightarrow> chunk \<Rightarrow> error + generate_content_response" where
  "convertStreamChunkToGeminiResponse parse ck =
     (let d = opt_chain (first (chunk_choices ck)) delta;
          parts0 =
            (case opt_chain d d_content of
               Some s \<Rightarrow> if s \<noteq> [] then [text_part s] else []
             | None \<Rightarrow> [])
      in case (case opt_chain d d_tool_calls of
                 Some tcs \<Rightarrow> delta_tool_call_parts parse tcs
               | None \<Rightarrow> Inr []) of
           Inl e \<Rightarrow> Inl e
         | Inr fcs \<Rightarrow>
             Inr \<lparr>candidates =
                    [\<lparr>candidate_content = turn ''model'' (parts0 @ fcs),
                      candidate_index = 0\<rparr>],
                  usageMetadata = None,
                  response_text = textContent (parts0 @ fcs)\<rparr>)"

text \<open>
  The generator \<^verbatim>\<open>generateContentStream\<close> returns, as the list of what each step of
  its consumer gets: a delta, or the error thrown at that chunk, after which the
  generator is finished.
\<close>

fun stream_deltas ::
  "(string \<Rightarrow> json option) \<Rightarrow> chunk list \<Rightarrow> (error + generate_content_response) list" where
  "stream_deltas parse [] = []"
| "stream_deltas parse (ck # cks) =
     (case convertStreamChunkToGeminiResponse parse ck of
        Inl e \<Rightarrow> [Inl e]
      | Inr r \<Rightarrow> Inr r # stream_deltas parse cks)"

definition generateContentStream ::
  "(json \<Rightarrow> string) \<Rightarrow> (string \<Rightarrow> json option) \<Rightarrow> (nat \<Rightarrow> string)
     \<Rightarrow> (chat_request \<Rightarrow> error + chunk list) \<Rightarrow> nat \<Rightarrow> string
     \<Rightarrow> generate_content_parameters
     \<Rightarrow> (error + (error + generate_content_response) list) \<times> nat" where
  "generateContentStream stringify parse rnd create k mdl request =
     (case generateContentStream_request stringify rnd k mdl request of
        (params, k') \<Rightarrow>
          (case create params of
             Inl e \<Rightarrow> (Inl e, k')
           | Inr cks \<Rightarrow> (Inr (stream_deltas parse cks), k')))"

subsection \<open>Vocabulary of the properties\<close>

text \<open>
  What the loop over a model turn's parts takes a part for. A Text part is a string or
  an object with the key \<^verbatim>\<open>text\<close>, and \<open>part_text\<close> is its text. A FunctionCall part is
  an object without the key \<^verbatim>\<open>text\<close> that has a \<^verbatim>\<open>functionCall\<close>, and \<open>part_call\<close>
  is that call: the test for \<^verbatim>\<open>text\<close> comes first in the source.
\<close>

fun part_text :: "content_union \<Rightarrow> string option" where
  "part_text (Str s) = Some s"
| "part_text (Obj r ps t i fc fr) = t"

fun part_call :: "content_union \<Rightarrow> function_call option" where
  "part_call (Str s) = None"
| "part_call (Obj r ps t i fc fr) = (case t of Some s \<Rightarrow> None | None \<Rightarrow> fc)"

definition text_parts :: "content_union list \<Rightarrow> string list" where
  "text_parts ps = List.map_filter part_text ps"

definition function_calls :: "content_union list \<Rightarrow> function_call list" where
  "function_calls ps = List.map_filter part_call ps"

text \<open>The FunctionResponse parts of a function turn: the parts with a
  \<^verbatim>\<open>functionResponse\<close>, whatever else they carry.\<close>

definition function_responses :: "content_union list \<Rightarrow> function_response list" where
  "function_responses ps = List.map_filter get_functionResponse ps"

text \<open>The parts of a turn, none when it has no \<^verbatim>\<open>parts\<close>.\<close>

definition turn_parts :: "content_union \<Rightarrow> content_union list" where
  "turn_parts c = (case get_parts c of Some ps \<Rightarrow> ps | None \<Rightarrow> [])"

text \<open>The entry of \<^verbatim>\<open>toolCalls\<close> that a function call gets at the draw numbered
  \<open>fst jf\<close>.\<close>

definition call_entry ::
  "(json \<Rightarrow> string) \<Rightarrow> (nat \<Rightarrow> string) \<Rightarrow> nat \<times> function_call \<Rightarrow> tool_call" where
  "call_entry stringify rnd jf =
     \<lparr>tc_id = call_id (rnd (fst jf)),
      tc_name = or_else (fc_name (snd jf)) [],
      tc_arguments = stringify (fc_args (snd jf))\<rparr>"

text \<open>The identifiers on a message's \<^verbatim>\<open>tool_calls\<close>.\<close>

definition tool_call_ids :: "message_param \<Rightarrow> string list" where
  "tool_call_ids m = (case tool_calls m of Some tcs \<Rightarrow> map tc_id tcs | None \<Rightarrow> [])"

text \<open>The parts of a response: those of its candidates' contents.\<close>

definition response_parts :: "generate_content_response \<Rightarrow> content_union list" where
  "response_parts r =
     concat (map (\<lambda>c. case get_parts (candidate_content c) of Some ps \<Rightarrow> ps | None \<Rightarrow> [])
               (candidates r))"

text \<open>The value of the first Text part of a list of response parts (an object with
  the key \<^verbatim>\<open>text\<close>), or the empty string if there is none.\<close>

fun first_text_value :: "content_union list \<Rightarrow> string" where
  "first_text_value [] = []"
| "first_text_value (p # ps) =
     (case get_text p of Some s \<Rightarrow> s | None \<Rightarrow> first_text_value ps)"

text \<open>The tool calls \<^verbatim>\<open>convertToGeminiResponse\<close> reads: those of the first choice.\<close>

definition completion_tool_calls :: "completion \<Rightarrow> message_tool_call list" where
  "completion_tool_calls c =
     (case choices c of
        [] \<Rightarrow> []
      | ch # rest \<Rightarrow> (case m_tool_calls (message ch) of Some tcs \<Rightarrow> tcs | None \<Rightarrow> []))"

text \<open>The tool-call deltas \<^verbatim>\<open>convertStreamChunkToGeminiResponse\<close> reads, and the
  function name of a delta.\<close>

definition chunk_tool_calls :: "chunk \<Rightarrow> delta_tool_call list" where
  "chunk_tool_calls ck =
     (case opt_chain (opt_chain (first (chunk_choices ck)) delta) d_tool_calls of
        Some tcs \<Rightarrow> tcs
      | None \<Rightarrow> [])"

definition delta_name :: "delta_tool_call \<Rightarrow> string option" where
  "delta_name tc = opt_chain (dtc_function tc) df_name"

text \<open>A delta carries a function name when the name is present and not empty.\<close>

definition named :: "delta_tool_call \<Rightarrow> bool" where
  "named tc = (case delta_name tc of Some n \<Rightarrow> n \<noteq> [] | None \<Rightarrow> False)"

text \<open>The configuration a request is built from (\<^verbatim>\<open>request.config || {}\<close>), and the
  messages translated from its turns.\<close>

definition request_config :: "generate_content_parameters \<Rightarrow> generate_content_config" where
  "request_config request = (case config request of Some c \<Rightarrow> c | None \<Rightarrow> empty_config)"

definition translated_messages ::
  "(json \<Rightarrow> string) \<Rightarrow> (nat \<Rightarrow> string) \<Rightarrow> nat \<Rightarrow> generate_content_parameters
     \<Rightarrow> message_param list" where
  "translated_messages stringify rnd k request =
     fst (convertToOpenAIMessages stringify rnd k (normalizeContents (contents request)))"

subsection \<open>Sample runtime behaviour\<close>

text \<open>
  Concrete stand-ins for the runtime, to evaluate the functions on examples. The
  serializer and the parser know two documents; \<open>fresh_random\<close> gives a different
  string at every draw, \<open>repeating_random\<close> the same one (\<^verbatim>\<open>(0.5).toString(36)\<close> is
  \<^verbatim>\<open>0.i\<close>).
\<close>

definition object_schema :: json where
  "object_schema = JObj [(''type'', JStr ''object'')]"

definition sample_stringify :: "json \<Rightarrow> string" where
  "sample_stringify v =
     (if v = JObj [] then ''{}''
      else if v = object_schema then ''{type:object}''
      else ''null'')"

definition sample_parse :: "string \<Rightarrow> json option" where
  "sample_parse s =
     (if s = ''{}'' then Some (JObj [])
      else if s = ''null'' then Some JNull
      else None)"

definition fresh_random :: "nat \<Rightarrow> string" where
  "fresh_random k = ''0.'' @ replicate (Suc k) CHR ''a''"

definition repeating_random :: "nat \<Rightarrow> string" where
  "repeating_random k = ''0.i''"

text \<open>Sample requests: \<^verbatim>\<open>{contents: "Hello", config}\<close>, a configuration in JSON mode
  with the schema \<^verbatim>\<open>{type: "object"}\<close>, and two requests with sampling values.\<close>

definition json_config :: "string option \<Rightarrow> generate_content_config" where
  "json_config instruction =
     \<lparr>temperature = None, topP = None, maxOutputTokens = None,
      systemInstruction = instruction,
      responseMimeType = Some ''application/json'',
      responseJsonSchema = Some object_schema\<rparr>"

definition hello_request :: "generate_content_config \<Rightarrow> generate_content_parameters" where
  "hello_request cfg =
     \<lparr>contents = Single (Str ''Hello''), config = Some cfg, tools = None,
      generationConfig = None\<rparr>"

definition hello_message :: message_param where
  "hello_message = \<lparr>role = User, content = CStr ''Hello'', tool_calls = None,
                     tool_call_id = None\<rparr>"

definition explicit_sampling_request :: generate_content_parameters where
  "explicit_sampling_request =
     \<lparr>contents = Single (Str ''Hello''),
      config = Some \<lparr>temperature = Some (7 / 10), topP = None, maxOutputTokens = None,
                     systemInstruction = None, responseMimeType = None,
                     responseJsonSchema = None\<rparr>,
      tools = None,
      generationConfig =
        Some \<lparr>gc_temperature = Some (1 / 5), gc_topP = Some (9 / 10),
              gc_maxOutputTokens = None\<rparr>\<rparr>"

definition legacy_sampling_request :: generate_content_parameters where
  "legacy_sampling_request =
     \<lparr>contents = Single (Str ''Hello''),
      config = None,
      tools = None,
      generationConfig =
        Some \<lparr>gc_temperature = Some 0, gc_topP = None, gc_maxOutputTokens = Some 256\<rparr>\<rparr>"

text \<open>Sample completions, responses and chunks: a completion whose only choice says
  \<^verbatim>\<open>Hi\<close> and carries the given tool calls, with no \<^verbatim>\<open>usage\<close>; a transport that
  answers with a given completion; a chunk whose delta carries the given tool-call
  deltas.\<close>

definition sample_completion :: "message_tool_call list \<Rightarrow> completion" where
  "sample_completion tcs =
     \<lparr>choices = [\<lparr>message = \<lparr>m_content = Some ''Hi'', m_tool_calls = Some tcs\<rparr>\<rparr>],
      usage = None\<rparr>"

definition sample_transport :: "completion \<Rightarrow> chat_request \<Rightarrow> error + completion" where
  "sample_transport c q = Inr c"

definition sample_response :: "content_union list \<Rightarrow> generate_content_response" where
  "sample_response ps =
     \<lparr>candidates = [\<lparr>candidate_content = turn ''model'' ps, candidate_index = 0\<rparr>],
      usageMetadata =
        Some \<lparr>promptTokenCount = 0, candidatesTokenCount = 0, totalTokenCount = 0\<rparr>,
      response_text = ''Hi''\<rparr>"

definition sample_chunk :: "delta_tool_call list \<Rightarrow> chunk" where
  "sample_chunk tcs =
     \<lparr>chunk_choices = [\<lparr>delta = Some \<lparr>d_content = None, d_tool_calls = Some tcs\<rparr>\<rparr>]\<rparr>"

definition sample_delta :: "string option \<Rightarrow> string option \<Rightarrow> delta_tool_call" where
  "sample_delta n a = \<lparr>dtc_function = Some \<lparr>df_name = n, df_arguments = a\<rparr>\<rparr>"

section \<open>Properties\<close>

subsection \<open>Content Normalizer\<close>

text \<open>
  Claim C3, as the code has it. For every sequence given to \<^verbatim>\<open>normalizeContents\<close>: the
  empty sequence is returned unchanged; a sequence whose first element is an object
  with the key \<^verbatim>\<open>role\<close> is returned unchanged; every other sequence becomes a single
  user turn whose parts are the sequence.
\<close>

theorem normalizeContents_array:
  "(cs = [] \<longrightarrow> normalizeContents (Array cs) = []) \<and>
   (\<forall>c rest. cs = c # rest \<and> is_object c \<and> get_role c \<noteq> None
      \<longrightarrow> normalizeContents (Array cs) = cs) \<and>
   (\<forall>c rest. cs = c # rest \<and> \<not> (is_object c \<and> get_role c \<noteq> None)
      \<longrightarrow> normalizeContents (Array cs) = [turn ''user'' cs]
          \<and> get_role (turn ''user'' cs) = Some ''user''
          \<and> get_parts (turn ''user'' cs) = Some cs)"
proof -
  have role: "exposes_role c = (is_object c \<and> get_role c \<noteq> None)" for c
    by (cases c) simp_all
  show ?thesis
    by (cases cs) (auto simp: role turn_def)
qed

theorem normalizeContents_array_witness:
  "normalizeContents (Array []) = [] \<and>
   normalizeContents (Array [turn ''model'' [], Str ''x'']) = [turn ''model'' [], Str ''x''] \<and>
   normalizeContents (Array [text_part ''a'', text_part ''b''])
     = [turn ''user'' [text_part ''a'', text_part ''b'']]"
  using normalizeContents_array [of "[]"]
    normalizeContents_array [of "[turn ''model'' [], Str ''x'']"]
    normalizeContents_array [of "[text_part ''a'', text_part ''b'']"]
  by (simp add: turn_def text_part_def)

text \<open>
  Claim C3 as the specification words it has the empty sequence wrapped as a user turn
  with no parts. The code returns the empty sequence itself.
\<close>

theorem normalizeContents_empty_counterexample:
  "normalizeContents (Array []) = [] \<and> normalizeContents (Array []) \<noteq> [turn ''user'' []]"
  by simp

subsection \<open>Streaming Response Assembler\<close>

text \<open>
  Claim C10. For every stream chunk whose \<^verbatim>\<open>choices\<close> is empty,
  \<^verbatim>\<open>convertStreamChunkToGeminiResponse\<close> returns a delta with role model, no parts
  and the empty text; \<^verbatim>\<open>convertToGeminiResponse\<close> on a completion whose \<^verbatim>\<open>choices\<close> is
  empty throws TypeError.
\<close>

theorem stream_chunk_no_choices:
  "(chunk_choices ck = [] \<longrightarrow>
      convertStreamChunkToGeminiResponse parse ck =
        Inr \<lparr>candidates = [\<lparr>candidate_content = turn ''model'' [], candidate_index = 0\<rparr>],
             usageMetadata = None, response_text = []\<rparr>) \<and>
   (choices c = [] \<longrightarrow> convertToGeminiResponse parse c = Inl TypeError)"
  by (simp add: convertStreamChunkToGeminiResponse_def convertToGeminiResponse_def)

theorem stream_chunk_no_choices_witness:
  "convertStreamChunkToGeminiResponse sample_parse \<lparr>chunk_choices = []\<rparr> =
     Inr \<lparr>candidates = [\<lparr>candidate_content = turn ''model'' [], candidate_index = 0\<rparr>],
          usageMetadata = None, response_text = []\<rparr> \<and>
   get_role (turn ''model'' []) = Some ''model'' \<and>
   get_parts (turn ''model'' []) = Some [] \<and>
   convertToGeminiResponse sample_parse \<lparr>choices = [], usage = None\<rparr> = Inl TypeError"
  using stream_chunk_no_choices
    [of "\<lparr>chunk_choices = []\<rparr>" sample_parse "\<lparr>choices = [], usage = None\<rparr>"]
  by (simp add: turn_def)

subsection \<open>Turn Translator\<close>

text \<open>
  What the loop over a model turn's parts returns: the texts of the Text parts in
  order, one \<^verbatim>\<open>toolCalls\<close> entry per FunctionCall part in order, each with the next
  random draw.
\<close>

lemma model_parts_eq:
  "model_parts stringify rnd k ps =
     (text_parts ps,
      map (call_entry stringify rnd) (enumerate k (function_calls ps)),
      k + length (function_calls ps))"
proof (induction ps arbitrary: k)
  case Nil
  show ?case by (simp add: text_parts_def function_calls_def)
next
  case (Cons p ps)
  show ?case
  proof (cases p)
    case (Str s)
    then show ?thesis
      by (simp add: Cons.IH text_parts_def function_calls_def)
  next
    case (Obj r qs t i fc fr)
    then show ?thesis
      by (cases t; cases fc)
         (simp_all add: Cons.IH text_parts_def function_calls_def call_entry_def)
  qed
qed

lemma distinct_prefixed: "distinct (map (\<lambda>x. p @ f x) xs) = distinct (map f xs)"
  by (simp add: distinct_map inj_on_def)

lemma enumerate_empty: "(enumerate k xs = []) = (xs = [])"
  by (cases xs) simp_all

lemma assistant_message_eq:
  "assistant_message stringify rnd k (Some ps) =
     (\<lparr>role = Assistant,
       content =
         (if text_parts ps \<noteq> [] then CStr (join newline (text_parts ps))
          else if function_calls ps = [] then CStr []
          else CNull),
       tool_calls =
         (if function_calls ps \<noteq> []
          then Some (map (call_entry stringify rnd) (enumerate k (function_calls ps)))
          else None),
       tool_call_id = None\<rparr>,
      k + length (function_calls ps))"
  by (simp add: assistant_message_def model_parts_eq enumerate_empty)

lemma call_entry_ids:
  "map (tc_id \<circ> call_entry stringify rnd) (enumerate k fs) =
     map (\<lambda>j. call_id (rnd j)) [k..<k + length fs]"
proof -
  have "tc_id \<circ> call_entry stringify rnd = (\<lambda>j. call_id (rnd j)) \<circ> fst"
    by (simp add: fun_eq_iff call_entry_def)
  then have "map (tc_id \<circ> call_entry stringify rnd) (enumerate k fs) =
               map (\<lambda>j. call_id (rnd j)) (map fst (enumerate k fs))"
    by (simp only: map_map)
  then show ?thesis
    by (simp only: map_fst_enumerate)
qed

text \<open>
  The content rule of a model turn that has a \<^verbatim>\<open>parts\<close> list: the newline-joined text
  when there is a Text part, \<^verbatim>\<open>null\<close> when there are FunctionCall parts only, the
  empty string when there is neither.
\<close>

lemma model_turn_content:
  assumes "get_role c = Some ''model''" and "get_parts c = Some ps"
  shows "\<exists>m. fst (content_messages stringify rnd k c) = [m] \<and> role m = Assistant \<and>
             content m =
               (if text_parts ps \<noteq> [] then CStr (join newline (text_parts ps))
                else if function_calls ps \<noteq> [] then CNull
                else CStr [])"
  using assms by (simp add: content_messages_def assistant_message_eq)

text \<open>
  Claim C2 at a model turn that has no \<^verbatim>\<open>parts\<close> key, \<^verbatim>\<open>{role: 'model'}\<close>. The turn
  has neither Text parts nor FunctionCall parts, and the assistant message keeps the
  \<^verbatim>\<open>content: null\<close> it was created with: \<^verbatim>\<open>if (content.parts)\<close> skips the block that
  sets the empty string.
\<close>

theorem model_turn_without_parts:
  "get_role (Obj (Some ''model'') None None None None None) = Some ''model'' \<and>
   text_parts (turn_parts (Obj (Some ''model'') None None None None None)) = [] \<and>
   function_calls (turn_parts (Obj (Some ''model'') None None None None None)) = [] \<and>
   content_messages stringify rnd k (Obj (Some ''model'') None None None None None) =
     ([\<lparr>role = Assistant, content = CNull, tool_calls = None, tool_call_id = None\<rparr>], k)"
  by (simp add: content_messages_def assistant_message_def turn_parts_def text_parts_def
      function_calls_def)

text \<open>
  Claim C4, as the code has it. A model turn becomes one assistant message. Its
  tool-call identifiers are, in the order of the FunctionCall parts, \<^verbatim>\<open>call_\<close> followed
  by characters 2 to 10 of the successive random draws; they are pairwise distinct
  exactly when those fragments of the draws are. Nothing in the code compares them.
\<close>

theorem model_turn_tool_call_ids:
  assumes "get_role c = Some ''model''"
  shows "\<exists>m. content_messages stringify rnd k c =
               ([m], k + length (function_calls (turn_parts c))) \<and>
             tool_call_ids m =
               map (\<lambda>j. call_id (rnd j)) [k..<k + length (function_calls (turn_parts c))] \<and>
             (distinct (tool_call_ids m) \<longleftrightarrow>
                distinct (map (\<lambda>j. substr 2 9 (rnd j))
                            [k..<k + length (function_calls (turn_parts c))]))"
proof (cases "get_parts c")
  case None
  with assms show ?thesis
    by (simp add: content_messages_def assistant_message_def turn_parts_def
        tool_call_ids_def function_calls_def)
next
  case (Some ps)
  let ?m = "fst (assistant_message stringify rnd k (Some ps))"
  have ids: "tool_call_ids ?m =
               map (\<lambda>j. call_id (rnd j)) [k..<k + length (function_calls ps)]"
    by (simp add: assistant_message_eq tool_call_ids_def call_entry_ids)
  have "distinct (map (\<lambda>j. call_id (rnd j)) xs) =
          distinct (map (\<lambda>j. substr 2 9 (rnd j)) xs)" for xs
    unfolding call_id_def by (rule distinct_prefixed)
  with ids have "distinct (tool_call_ids ?m) \<longleftrightarrow>
      distinct (map (\<lambda>j. substr 2 9 (rnd j)) [k..<k + length (function_calls ps)])"
    by simp
  with ids Some assms show ?thesis
    by (simp add: content_messages_def assistant_message_eq turn_parts_def)
qed

theorem model_turn_tool_call_ids_witness:
  "get_role (turn ''model''
      [function_call_part (Some ''f'') (JObj []), text_part ''t'',
       function_call_part (Some ''g'') object_schema]) = Some ''model'' \<and>
   (\<exists>m. content_messages sample_stringify fresh_random 0
          (turn ''model''
             [function_call_part (Some ''f'') (JObj []), text_part ''t'',
              function_call_part (Some ''g'') object_schema]) = ([m], 2) \<and>
        tool_call_ids m = [''call_a'', ''call_aa''] \<and>
        distinct (tool_call_ids m))"
  using model_turn_tool_call_ids
    [of "turn ''model''
           [function_call_part (Some ''f'') (JObj []), text_part ''t'',
            function_call_part (Some ''g'') object_schema]"
        sample_stringify fresh_random 0]
  by (simp add: turn_def turn_parts_def function_calls_def function_call_part_def
      text_part_def call_id_def substr_def fresh_random_def upt_conv_Cons
      numeral_2_eq_2)

text \<open>
  Claim C4 as the specification words it: the identifiers of one message are always
  pairwise distinct. When \<^verbatim>\<open>Math.random()\<close> gives 0.5 twice, two FunctionCall parts
  get the same identifier.
\<close>

theorem repeated_draw_counterexample:
  "content_messages sample_stringify repeating_random 0
     (turn ''model''
        [function_call_part (Some ''f'') (JObj []),
         function_call_part (Some ''g'') (JObj [])]) =
     ([\<lparr>role = Assistant, content = CNull,
        tool_calls =
          Some [\<lparr>tc_id = ''call_i'', tc_name = ''f'', tc_arguments = ''{}''\<rparr>,
                \<lparr>tc_id = ''call_i'', tc_name = ''g'', tc_arguments = ''{}''\<rparr>],
        tool_call_id = None\<rparr>], 2) \<and>
   \<not> distinct
       (tool_call_ids
          \<lparr>role = Assistant, content = CNull,
           tool_calls =
             Some [\<lparr>tc_id = ''call_i'', tc_name = ''f'', tc_arguments = ''{}''\<rparr>,
                   \<lparr>tc_id = ''call_i'', tc_name = ''g'', tc_arguments = ''{}''\<rparr>],
           tool_call_id = None\<rparr>)"
  by (simp add: content_messages_def assistant_message_def turn_def function_call_part_def
      call_id_def substr_def repeating_random_def sample_stringify_def tool_call_ids_def)

text \<open>The loop over the parts of a function turn, as a map over its FunctionResponse
  parts.\<close>

lemma tool_messages_eq:
  "tool_messages stringify ps =
     map (\<lambda>fr. \<lparr>role = Tool, content = CStr (stringify (fr_response fr)),
                tool_calls = None,
                tool_call_id = Some (case fr_name fr of Some n \<Rightarrow> n | None \<Rightarrow> [])\<rparr>)
       (function_responses ps)"
  by (induction ps) (auto simp: function_responses_def split: option.splits)

text \<open>
  Claim C6. A function turn becomes one tool message per FunctionResponse part, in
  order: its content is the JSON serialization of the part's response, its
  \<^verbatim>\<open>tool_call_id\<close> the part's name (the empty string when the part has no name). Other
  parts give no message, a turn without parts gives none, and no random draw is made.
\<close>

theorem function_turn_messages:
  assumes "get_role c = Some ''function''"
  shows "content_messages stringify rnd k c =
           (map (\<lambda>fr. \<lparr>role = Tool,
                        content = CStr (stringify (fr_response fr)),
                        tool_calls = None,
                        tool_call_id = Some (case fr_name fr of Some n \<Rightarrow> n | None \<Rightarrow> [])\<rparr>)
              (function_responses (turn_parts c)), k)"
  using assms
  by (cases "get_parts c")
     (simp_all add: content_messages_def tool_messages_eq turn_parts_def
        function_responses_def)

theorem function_turn_messages_witness:
  "get_role (turn ''function''
      [function_response_part (Some ''lookup'') (JObj []), text_part ''x'', Str ''y'',
       function_response_part None object_schema]) = Some ''function'' \<and>
   content_messages sample_stringify fresh_random 5
     (turn ''function''
        [function_response_part (Some ''lookup'') (JObj []), text_part ''x'', Str ''y'',
         function_response_part None object_schema]) =
     ([\<lparr>role = Tool, content = CStr ''{}'', tool_calls = None,
        tool_call_id = Some ''lookup''\<rparr>,
       \<lparr>role = Tool, content = CStr ''{type:object}'', tool_calls = None,
        tool_call_id = Some []\<rparr>], 5)"
  using function_turn_messages
    [of "turn ''function''
           [function_response_part (Some ''lookup'') (JObj []), text_part ''x'', Str ''y'',
            function_response_part None object_schema]"
        sample_stringify fresh_random 5]
  by (simp add: turn_def turn_parts_def function_responses_def function_response_part_def
      text_part_def sample_stringify_def object_schema_def)

subsection \<open>Request Builder\<close>

text \<open>
  The request each of the two functions passes to the transport, field by field: the
  system-instruction message (if any) first, the schema message (if any) second, the
  translated turns after them.
\<close>

lemma generateContent_request_fields:
  "fst (generateContent_request stringify rnd k mdl request) =
     \<lparr>p_model = mdl,
      p_messages =
        (case systemInstruction (request_config request) of
           Some s \<Rightarrow> if s \<noteq> [] then [system_message s] else []
         | None \<Rightarrow> []) @
        (if json_mode (request_config request)
         then [system_message
                 (schema_instruction
                    (stringify_or_undefined stringify
                       (responseJsonSchema (request_config request))))]
         else []) @
        translated_messages stringify rnd k request,
      p_tools =
        (if convertToOpenAITools (tools request) \<noteq> []
         then Some (convertToOpenAITools (tools request)) else None),
      p_temperature =
        nullish_or
          (nullish (temperature (request_config request))
             (opt_chain (generationConfig request) gc_temperature)) 0,
      p_top_p =
        nullish_or
          (nullish (topP (request_config request))
             (opt_chain (generationConfig request) gc_topP)) 1,
      p_max_tokens =
        nullish (maxOutputTokens (request_config request))
          (opt_chain (generationConfig request) gc_maxOutputTokens),
      p_response_format =
        (if json_mode (request_config request) then Some JsonObject else None),
      p_stream = False\<rparr>"
  by (simp add: generateContent_request_def request_config_def translated_messages_def
      Let_def split: prod.splits option.splits)


lemma generateContentStream_request_fields:
  "fst (generateContentStream_request stringify rnd k mdl request) =
     \<lparr>p_model = mdl,
      p_messages =
        (case systemInstruction (request_config request) of
           Some s \<Rightarrow> if s \<noteq> [] then [system_message s] else []
         | None \<Rightarrow> []) @
        (if json_mode (request_config request)
         then [system_message
                 (schema_instruction
                    (stringify_or_undefined stringify
                       (responseJsonSchema (request_config request))))]
         else []) @
        translated_messages stringify rnd k request,
      p_tools =
        (if convertToOpenAITools (tools request) \<noteq> []
         then Some (convertToOpenAITools (tools request)) else None),
      p_temperature =
        nullish_or
          (nullish (temperature (request_config request))
             (opt_chain (generationConfig request) gc_temperature)) 0,
      p_top_p =
        nullish_or
          (nullish (topP (request_config request))
             (opt_chain (generationConfig request) gc_topP)) 1,
      p_max_tokens =
        nullish (maxOutputTokens (request_config request))
          (opt_chain (generationConfig request) gc_maxOutputTokens),
      p_response_format =
        (if json_mode (request_config request) then Some JsonObject else None),
      p_stream = True\<rparr>"
  by (simp add: generateContentStream_request_def request_config_def translated_messages_def
      Let_def split: prod.splits option.splits)

text \<open>
  Claim C1, as the code has it. \<^verbatim>\<open>generateContent\<close> tests both settings for
  truthiness. When \<^verbatim>\<open>responseMimeType\<close> is \<^verbatim>\<open>application/json\<close> with a truthy
  \<^verbatim>\<open>responseJsonSchema\<close> and \<^verbatim>\<open>systemInstruction\<close> is a non-empty string, the messages
  are the system-instruction message, the schema message, then the translated turns,
  and the response format is JSON-object mode. When only one of the two holds, only its
  message is prepended; when neither holds, none is. The response format is JSON-object
  mode exactly under the first condition. An empty \<^verbatim>\<open>systemInstruction\<close> counts as none.
\<close>

theorem system_messages_order:
  assumes "cfg = request_config request"
    and "q = fst (generateContent_request stringify rnd k mdl request)"
    and "translated = translated_messages stringify rnd k request"
  shows
    "(\<forall>sch s. responseMimeType cfg = Some ''application/json'' \<and>
        responseJsonSchema cfg = Some sch \<and> truthy sch \<and>
        systemInstruction cfg = Some s \<and> s \<noteq> []
        \<longrightarrow> p_messages q =
              system_message s # system_message (schema_instruction (stringify sch))
                # translated \<and>
            p_response_format q = Some JsonObject) \<and>
     (\<forall>sch. responseMimeType cfg = Some ''application/json'' \<and>
        responseJsonSchema cfg = Some sch \<and> truthy sch \<and>
        (systemInstruction cfg = None \<or> systemInstruction cfg = Some [])
        \<longrightarrow> p_messages q =
              system_message (schema_instruction (stringify sch)) # translated \<and>
            p_response_format q = Some JsonObject) \<and>
     (\<forall>s. \<not> json_mode cfg \<and> systemInstruction cfg = Some s \<and> s \<noteq> []
        \<longrightarrow> p_messages q = system_message s # translated \<and>
            p_response_format q = None) \<and>
     (\<not> json_mode cfg \<and> (systemInstruction cfg = None \<or> systemInstruction cfg = Some [])
        \<longrightarrow> p_messages q = translated \<and> p_response_format q = None)"
  using assms
  by (auto simp: generateContent_request_fields json_mode_def)

lemma hello_translated:
  "translated_messages stringify rnd k (hello_request cfg) = [hello_message]"
  by (simp add: translated_messages_def hello_request_def hello_message_def turn_def
      text_part_def content_messages_def convertPartsToOpenAI_def)

lemma hello_config: "request_config (hello_request cfg) = cfg"
  by (simp add: request_config_def hello_request_def)

theorem system_messages_order_witness:
  "p_messages (fst (generateContent_request sample_stringify fresh_random 0 ''gpt-4o''
       (hello_request (json_config (Some ''Be brief''))))) =
     [system_message ''Be brief'',
      system_message (schema_instruction ''{type:object}''),
      hello_message] \<and>
   p_response_format (fst (generateContent_request sample_stringify fresh_random 0 ''gpt-4o''
       (hello_request (json_config (Some ''Be brief''))))) = Some JsonObject \<and>
   p_messages (fst (generateContent_request sample_stringify fresh_random 0 ''gpt-4o''
       (hello_request (json_config None)))) =
     [system_message (schema_instruction ''{type:object}''), hello_message] \<and>
   p_messages (fst (generateContent_request sample_stringify fresh_random 0 ''gpt-4o''
       (hello_request (empty_config\<lparr>systemInstruction := Some ''Be brief''\<rparr>)))) =
     [system_message ''Be brief'', hello_message] \<and>
   p_response_format (fst (generateContent_request sample_stringify fresh_random 0 ''gpt-4o''
       (hello_request (empty_config\<lparr>systemInstruction := Some ''Be brief''\<rparr>)))) = None"
  using
    system_messages_order [OF refl refl refl,
      of "hello_request (json_config (Some ''Be brief''))" sample_stringify fresh_random 0
         "''gpt-4o''"]
    system_messages_order [OF refl refl refl,
      of "hello_request (json_config None)" sample_stringify fresh_random 0 "''gpt-4o''"]
    system_messages_order [OF refl refl refl,
      of "hello_request (empty_config\<lparr>systemInstruction := Some ''Be brief''\<rparr>)"
         sample_stringify fresh_random 0 "''gpt-4o''"]
  by (simp add: hello_translated hello_config json_config_def empty_config_def
      json_mode_def object_schema_def sample_stringify_def)

text \<open>
  Claim C1 as the specification words it: a request that sets \<^verbatim>\<open>systemInstruction\<close>
  gets a first system message with that text. With \<^verbatim>\<open>systemInstruction: ""\<close> set next
  to the JSON settings, the first message is the schema message and no message carries
  the instruction.
\<close>

theorem empty_instruction_counterexample:
  "systemInstruction (json_config (Some [])) = Some [] \<and>
   responseMimeType (json_config (Some [])) = Some ''application/json'' \<and>
   responseJsonSchema (json_config (Some [])) = Some object_schema \<and>
   p_messages (fst (generateContent_request sample_stringify fresh_random 0 ''gpt-4o''
       (hello_request (json_config (Some []))))) =
     [system_message (schema_instruction ''{type:object}''), hello_message] \<and>
   p_messages (fst (generateContent_request sample_stringify fresh_random 0 ''gpt-4o''
       (hello_request (json_config (Some []))))) \<noteq>
     [system_message [],
      system_message (schema_instruction ''{type:object}''),
      hello_message]"
  by (simp add: generateContent_request_fields hello_translated hello_config
      json_config_def json_mode_def object_schema_def sample_stringify_def
      system_message_def schema_instruction_def)

text \<open>
  Claim C7. In \<^verbatim>\<open>generateContent\<close> and in \<^verbatim>\<open>generateContentStream\<close>, the temperature is
  \<^verbatim>\<open>config.temperature\<close> if present, else \<^verbatim>\<open>generationConfig.temperature\<close> if present,
  else 0; \<^verbatim>\<open>top_p\<close> likewise with default 1; \<^verbatim>\<open>max_tokens\<close> likewise and unset when
  neither is present.
\<close>

theorem sampling_fallback:
  assumes "q = fst (generateContent_request stringify rnd k mdl request) \<or>
           q = fst (generateContentStream_request stringify rnd k mdl request)"
  shows "p_temperature q =
           (case temperature (request_config request) of
              Some t \<Rightarrow> t
            | None \<Rightarrow>
                (case generationConfig request of
                   Some g \<Rightarrow> (case gc_temperature g of Some t \<Rightarrow> t | None \<Rightarrow> 0)
                 | None \<Rightarrow> 0)) \<and>
         p_top_p q =
           (case topP (request_config request) of
              Some t \<Rightarrow> t
            | None \<Rightarrow>
                (case generationConfig request of
                   Some g \<Rightarrow> (case gc_topP g of Some t \<Rightarrow> t | None \<Rightarrow> 1)
                 | None \<Rightarrow> 1)) \<and>
         p_max_tokens q =
           (case maxOutputTokens (request_config request) of
              Some n \<Rightarrow> Some n
            | None \<Rightarrow>
                (case generationConfig request of
                   Some g \<Rightarrow> gc_maxOutputTokens g
                 | None \<Rightarrow> None))"
  using assms
  by (auto simp: generateContent_request_fields generateContentStream_request_fields
      split: option.splits)

theorem sampling_fallback_witness:
  "p_temperature (fst (generateContent_request sample_stringify fresh_random 0 ''gpt-4o''
       explicit_sampling_request)) = 7 / 10 \<and>
   p_top_p (fst (generateContent_request sample_stringify fresh_random 0 ''gpt-4o''
       explicit_sampling_request)) = 9 / 10 \<and>
   p_max_tokens (fst (generateContent_request sample_stringify fresh_random 0 ''gpt-4o''
       explicit_sampling_request)) = None \<and>
   p_temperature (fst (generateContentStream_request sample_stringify fresh_random 0 ''gpt-4o''
       legacy_sampling_request)) = 0 \<and>
   p_top_p (fst (generateContentStream_request sample_stringify fresh_random 0 ''gpt-4o''
       legacy_sampling_request)) = 1 \<and>
   p_max_tokens (fst (generateContentStream_request sample_stringify fresh_random 0 ''gpt-4o''
       legacy_sampling_request)) = Some 256"
  using sampling_fallback
    [of "fst (generateContent_request sample_stringify fresh_random 0 ''gpt-4o''
           explicit_sampling_request)"
        sample_stringify fresh_random 0 "''gpt-4o''" explicit_sampling_request]
    sampling_fallback
    [of "fst (generateContentStream_request sample_stringify fresh_random 0 ''gpt-4o''
           legacy_sampling_request)"
        sample_stringify fresh_random 0 "''gpt-4o''" legacy_sampling_request]
  by (simp add: request_config_def explicit_sampling_request_def legacy_sampling_request_def
      empty_config_def)

subsection \<open>Response Assembler\<close>

text \<open>
  The loop over the tool calls of a completion raises SyntaxError at the first function
  tool call whose arguments \<^verbatim>\<open>JSON.parse\<close> rejects, returns its parts otherwise, and
  none of these parts is a Text part.
\<close>

lemma function_calls_Cons_call [simp]:
  "function_calls (function_call_part n v # ps) =
     \<lparr>fc_name = n, fc_args = v\<rparr> # function_calls ps"
  by (simp add: function_calls_def function_call_part_def)

lemma function_calls_Cons_text [simp]:
  "function_calls (text_part s # ps) = function_calls ps"
  by (simp add: function_calls_def text_part_def)

lemma function_calls_Nil [simp]: "function_calls [] = []"
  by (simp add: function_calls_def)

lemma tool_call_parts_fail:
  "FunctionToolCall i n a \<in> set tcs \<Longrightarrow> parse (or_else a ''{}'') = None
     \<Longrightarrow> tool_call_parts parse tcs = Inl SyntaxError"
proof (induction tcs)
  case Nil
  then show ?case by simp
next
  case (Cons tc tcs)
  show ?case
  proof (cases tc)
    case (FunctionToolCall i' n' a')
    show ?thesis
    proof (cases "parse (or_else a' ''{}'')")
      case None
      with FunctionToolCall show ?thesis by simp
    next
      case (Some v)
      with FunctionToolCall Cons.prems have "FunctionToolCall i n a \<in> set tcs"
        by auto
      with Cons.IH Cons.prems(2) have "tool_call_parts parse tcs = Inl SyntaxError"
        by simp
      with FunctionToolCall Some show ?thesis by simp
    qed
  next
    case (CustomToolCall i' n' inp)
    with Cons show ?thesis by auto
  qed
qed

lemma tool_call_parts_ok:
  "(\<And>i n a. FunctionToolCall i n a \<in> set tcs \<Longrightarrow> parse (or_else a ''{}'') \<noteq> None)
     \<Longrightarrow> \<exists>ps. tool_call_parts parse tcs = Inr ps"
proof (induction tcs)
  case Nil
  then show ?case by simp
next
  case (Cons tc tcs)
  then obtain ps where ps: "tool_call_parts parse tcs = Inr ps"
    by fastforce
  show ?case
  proof (cases tc)
    case (FunctionToolCall i n a)
    with Cons.prems [of i n a] obtain v where "parse (or_else a ''{}'') = Some v"
      by auto
    with FunctionToolCall ps show ?thesis by simp
  next
    case (CustomToolCall i n inp)
    with ps show ?thesis by simp
  qed
qed

lemma tool_call_parts_no_text:
  "tool_call_parts parse tcs = Inr ps \<Longrightarrow> textContent ps = [] \<and> first_text_value ps = []"
proof (induction tcs arbitrary: ps)
  case Nil
  then show ?case by simp
next
  case (Cons tc tcs)
  then show ?case
    by (cases tc)
       (auto simp: function_call_part_def split: option.splits sum.splits)
qed

lemma textContent_append_no_text:
  "textContent ps = [] \<Longrightarrow> first_text_value ps = [] \<Longrightarrow>
   textContent ((case x of Some s \<Rightarrow> if s \<noteq> [] then [text_part s] else [] | None \<Rightarrow> []) @ ps)
     = first_text_value
         ((case x of Some s \<Rightarrow> if s \<noteq> [] then [text_part s] else [] | None \<Rightarrow> []) @ ps)"
  by (cases x) (simp_all add: text_part_def)

lemma response_parts_single [simp]:
  "response_parts \<lparr>candidates = [\<lparr>candidate_content = turn r ps, candidate_index = j\<rparr>],
                    usageMetadata = u, response_text = t\<rparr> = ps"
  by (simp add: response_parts_def turn_def)

lemma completion_tool_calls_mem:
  assumes "tc \<in> set (completion_tool_calls c)"
  shows "\<exists>ch rest tcs. choices c = ch # rest \<and> m_tool_calls (message ch) = Some tcs \<and>
           tc \<in> set tcs"
proof (cases "choices c")
  case Nil
  with assms show ?thesis by (simp add: completion_tool_calls_def)
next
  case (Cons ch rest)
  with assms show ?thesis
    by (cases "m_tool_calls (message ch)") (simp_all add: completion_tool_calls_def)
qed

text \<open>
  Claim C5. The tool calls read are those of the first choice, the only one
  \<^verbatim>\<open>convertToGeminiResponse\<close> looks at. If one of them is a function tool call whose
  arguments string is present, not empty and rejected by \<^verbatim>\<open>JSON.parse\<close>, the conversion
  raises SyntaxError, and a \<^verbatim>\<open>generateContent\<close> call that received this completion
  ends with that error and no response. If \<^verbatim>\<open>JSON.parse\<close> accepts \<^verbatim>\<open>{}\<close> and the
  arguments of every function tool call are absent, empty or accepted, no SyntaxError is
  raised, and a completion with a choice gives a response.
\<close>

theorem malformed_arguments_raise:
  "(FunctionToolCall i n (Some a) \<in> set (completion_tool_calls c) \<and> a \<noteq> [] \<and>
      parse a = None
      \<longrightarrow> convertToGeminiResponse parse c = Inl SyntaxError \<and>
          (create (fst (generateContent_request stringify rnd k mdl request)) = Inr c
             \<longrightarrow> fst (generateContent stringify parse rnd create k mdl request)
                   = Inl SyntaxError)) \<and>
   (parse ''{}'' \<noteq> None \<and>
      (\<forall>j m b. FunctionToolCall j m b \<in> set (completion_tool_calls c)
         \<longrightarrow> b = None \<or> b = Some [] \<or> (\<exists>s. b = Some s \<and> parse s \<noteq> None))
      \<longrightarrow> convertToGeminiResponse parse c \<noteq> Inl SyntaxError \<and>
          (choices c \<noteq> [] \<longrightarrow> (\<exists>r. convertToGeminiResponse parse c = Inr r)))"
proof (intro conjI impI)
  assume bad: "FunctionToolCall i n (Some a) \<in> set (completion_tool_calls c) \<and> a \<noteq> [] \<and>
      parse a = None"
  then obtain ch rest tcs where c: "choices c = ch # rest"
      and tcs: "m_tool_calls (message ch) = Some tcs"
      and mem: "FunctionToolCall i n (Some a) \<in> set tcs"
    using completion_tool_calls_mem [of "FunctionToolCall i n (Some a)" c] by blast
  from bad have "parse (or_else (Some a) ''{}'') = None"
    by simp
  with mem have "tool_call_parts parse tcs = Inl SyntaxError"
    by (rule tool_call_parts_fail)
  with c tcs show raised: "convertToGeminiResponse parse c = Inl SyntaxError"
    by (simp add: convertToGeminiResponse_def)
  assume "create (fst (generateContent_request stringify rnd k mdl request)) = Inr c"
  with raised show "fst (generateContent stringify parse rnd create k mdl request)
      = Inl SyntaxError"
    by (auto simp: generateContent_def split: prod.splits)
next
  assume good: "parse ''{}'' \<noteq> None \<and>
      (\<forall>j m b. FunctionToolCall j m b \<in> set (completion_tool_calls c)
         \<longrightarrow> b = None \<or> b = Some [] \<or> (\<exists>s. b = Some s \<and> parse s \<noteq> None))"
  have parses: "parse (or_else b ''{}'') \<noteq> None"
    if "FunctionToolCall j m b \<in> set (completion_tool_calls c)" for j m b
    using good that by (cases b) auto
  have ok: "\<exists>r. convertToGeminiResponse parse c = Inr r" if "choices c \<noteq> []"
  proof -
    from that obtain ch rest where c: "choices c = ch # rest"
      by (cases "choices c") auto
    show ?thesis
    proof (cases "m_tool_calls (message ch)")
      case None
      with c show ?thesis
        by (simp add: convertToGeminiResponse_def Let_def)
    next
      case (Some tcs)
      with c have "completion_tool_calls c = tcs"
        by (simp add: completion_tool_calls_def)
      with parses have "\<exists>ps. tool_call_parts parse tcs = Inr ps"
        by (intro tool_call_parts_ok) auto
      with c Some show ?thesis
        by (auto simp: convertToGeminiResponse_def Let_def)
    qed
  qed
  show "convertToGeminiResponse parse c \<noteq> Inl SyntaxError"
  proof (cases "choices c")
    case Nil
    then show ?thesis by (simp add: convertToGeminiResponse_def)
  next
    case (Cons ch rest)
    with ok show ?thesis by auto
  qed
  assume "choices c \<noteq> []"
  with ok show "\<exists>r. convertToGeminiResponse parse c = Inr r" .
qed

theorem malformed_arguments_raise_witness:
  "sample_parse ''{oops'' = None \<and>
   convertToGeminiResponse sample_parse
     (sample_completion
        [FunctionToolCall ''c1'' ''f'' (Some ''{}''),
         FunctionToolCall ''c2'' ''g'' (Some ''{oops'')]) = Inl SyntaxError \<and>
   fst (generateContent sample_stringify sample_parse fresh_random
          (sample_transport
             (sample_completion
                [FunctionToolCall ''c1'' ''f'' (Some ''{}''),
                 FunctionToolCall ''c2'' ''g'' (Some ''{oops'')]))
          0 ''gpt-4o'' (hello_request empty_config)) = Inl SyntaxError \<and>
   convertToGeminiResponse sample_parse
     (sample_completion
        [FunctionToolCall ''c1'' ''f'' (Some ''null''),
         FunctionToolCall ''c2'' ''g'' None,
         CustomToolCall ''c3'' ''h'' ''{oops'',
         FunctionToolCall ''c4'' ''k'' (Some [])]) =
     Inr (sample_response
            [text_part ''Hi'',
             function_call_part (Some ''f'') JNull,
             function_call_part (Some ''g'') (JObj []),
             function_call_part (Some ''k'') (JObj [])])"
proof -
  have good: "convertToGeminiResponse sample_parse
     (sample_completion
        [FunctionToolCall ''c1'' ''f'' (Some ''null''),
         FunctionToolCall ''c2'' ''g'' None,
         CustomToolCall ''c3'' ''h'' ''{oops'',
         FunctionToolCall ''c4'' ''k'' (Some [])]) =
     Inr (sample_response
            [text_part ''Hi'',
             function_call_part (Some ''f'') JNull,
             function_call_part (Some ''g'') (JObj []),
             function_call_part (Some ''k'') (JObj [])])"
    by (simp add: convertToGeminiResponse_def sample_completion_def sample_response_def
        sample_parse_def text_part_def)
  show ?thesis
    using good
      malformed_arguments_raise
        [of "''c2''" "''g''" "''{oops''"
            "sample_completion
               [FunctionToolCall ''c1'' ''f'' (Some ''{}''),
                FunctionToolCall ''c2'' ''g'' (Some ''{oops'')]"
            sample_parse
            "sample_transport
               (sample_completion
                  [FunctionToolCall ''c1'' ''f'' (Some ''{}''),
                   FunctionToolCall ''c2'' ''g'' (Some ''{oops'')])"
            sample_stringify fresh_random 0 "''gpt-4o''" "hello_request empty_config"]
      malformed_arguments_raise
        [of "''c1''" "''f''" "''null''"
            "sample_completion
               [FunctionToolCall ''c1'' ''f'' (Some ''null''),
                FunctionToolCall ''c2'' ''g'' None,
                CustomToolCall ''c3'' ''h'' ''{oops'',
                FunctionToolCall ''c4'' ''k'' (Some [])]"
            sample_parse]
    by (simp add: completion_tool_calls_def sample_completion_def sample_parse_def
        sample_transport_def)
qed

text \<open>
  Claim C8. Whenever \<^verbatim>\<open>convertToGeminiResponse\<close> returns a response: with no
  \<^verbatim>\<open>usage\<close> in the completion the three token counts are 0, with a \<^verbatim>\<open>usage\<close> they are
  its counts, and the \<^verbatim>\<open>text\<close> of the response is the value of the first Text part of
  its parts, or the empty string if it has none.
\<close>

theorem assembled_usage_and_text:
  assumes "convertToGeminiResponse parse c = Inr r"
  shows "(usage c = None \<longrightarrow>
            usageMetadata r =
              Some \<lparr>promptTokenCount = 0, candidatesTokenCount = 0, totalTokenCount = 0\<rparr>) \<and>
         (\<forall>u. usage c = Some u \<longrightarrow>
            usageMetadata r =
              Some \<lparr>promptTokenCount = prompt_tokens u,
                    candidatesTokenCount = completion_tokens u,
                    totalTokenCount = total_tokens u\<rparr>) \<and>
         response_text r = first_text_value (response_parts r)"
proof -
  from assms obtain ch rest where c: "choices c = ch # rest"
    by (cases "choices c") (auto simp: convertToGeminiResponse_def)
  define parts0 where "parts0 =
    (case m_content (message ch) of
       Some s \<Rightarrow> if s \<noteq> [] then [text_part s] else []
     | None \<Rightarrow> [])"
  from assms c obtain fcs where
    fcs: "(case m_tool_calls (message ch) of
            Some tcs \<Rightarrow> tool_call_parts parse tcs | None \<Rightarrow> Inr []) = Inr fcs"
    and r: "r = \<lparr>candidates =
                   [\<lparr>candidate_content = turn ''model'' (parts0 @ fcs), candidate_index = 0\<rparr>],
                 usageMetadata =
                   Some \<lparr>promptTokenCount = or_zero (map_option prompt_tokens (usage c)),
                         candidatesTokenCount =
                           or_zero (map_option completion_tokens (usage c)),
                         totalTokenCount = or_zero (map_option total_tokens (usage c))\<rparr>,
                 response_text = textContent (parts0 @ fcs)\<rparr>"
    by (auto simp: convertToGeminiResponse_def parts0_def Let_def split: sum.splits)
  from fcs have "textContent fcs = [] \<and> first_text_value fcs = []"
    by (cases "m_tool_calls (message ch)") (auto dest: tool_call_parts_no_text)
  then have "textContent (parts0 @ fcs) = first_text_value (parts0 @ fcs)"
    unfolding parts0_def by (intro textContent_append_no_text) simp_all
  with r show ?thesis
    by auto
qed

theorem assembled_usage_and_text_witness:
  "convertToGeminiResponse sample_parse
     (sample_completion [FunctionToolCall ''c1'' ''f'' (Some ''{}'')]) =
     Inr (sample_response [text_part ''Hi'', function_call_part (Some ''f'') (JObj [])]) \<and>
   usage (sample_completion [FunctionToolCall ''c1'' ''f'' (Some ''{}'')]) = None \<and>
   usageMetadata
     (sample_response [text_part ''Hi'', function_call_part (Some ''f'') (JObj [])]) =
     Some \<lparr>promptTokenCount = 0, candidatesTokenCount = 0, totalTokenCount = 0\<rparr> \<and>
   response_text
     (sample_response [text_part ''Hi'', function_call_part (Some ''f'') (JObj [])]) = ''Hi'' \<and>
   first_text_value
     (response_parts
        (sample_response [text_part ''Hi'', function_call_part (Some ''f'') (JObj [])])) = ''Hi''"
proof -
  have run: "convertToGeminiResponse sample_parse
     (sample_completion [FunctionToolCall ''c1'' ''f'' (Some ''{}'')]) =
     Inr (sample_response [text_part ''Hi'', function_call_part (Some ''f'') (JObj [])])"
    by (simp add: convertToGeminiResponse_def sample_completion_def sample_response_def
        sample_parse_def text_part_def)
  show ?thesis
    using run assembled_usage_and_text [OF run]
    by (simp add: sample_completion_def sample_response_def)
qed

subsection \<open>Streaming Response Assembler: tool-call deltas\<close>

lemma function_calls_append:
  "function_calls (xs @ ys) = function_calls xs @ function_calls ys"
  by (induction xs) (simp_all add: function_calls_def split: option.splits)

lemma delta_unnamed_step:
  "\<not> named tc \<Longrightarrow>
     delta_tool_call_parts parse (tc # tcs) = delta_tool_call_parts parse tcs"
  by (simp add: named_def delta_name_def split: option.splits)

lemma delta_named_step:
  assumes "named tc" and "delta_tool_call_parts parse (tc # tcs) = Inr ps"
  shows "\<exists>n v ps'. delta_name tc = Some n \<and> ps = function_call_part (Some n) v # ps' \<and>
           delta_tool_call_parts parse tcs = Inr ps'"
proof -
  from assms(1) obtain n where n: "delta_name tc = Some n" "n \<noteq> []"
    by (auto simp: named_def split: option.splits)
  with assms(2) show ?thesis
    by (auto simp: delta_name_def split: option.splits sum.splits if_splits)
qed

lemma delta_tool_call_parts_names:
  "delta_tool_call_parts parse tcs = Inr ps \<Longrightarrow>
     map fc_name (function_calls ps) = map delta_name (filter named tcs)"
proof (induction tcs arbitrary: ps)
  case Nil
  then show ?case by simp
next
  case (Cons tc tcs)
  show ?case
  proof (cases "named tc")
    case False
    then have "delta_tool_call_parts parse (tc # tcs) = delta_tool_call_parts parse tcs"
      by (rule delta_unnamed_step)
    with Cons.prems have "delta_tool_call_parts parse tcs = Inr ps"
      by (simp only:)
    with Cons.IH False show ?thesis
      by simp
  next
    case True
    with Cons.prems obtain n v ps' where n: "delta_name tc = Some n"
        and ps: "ps = function_call_part (Some n) v # ps'"
        and rest: "delta_tool_call_parts parse tcs = Inr ps'"
      using delta_named_step by blast
    from rest have "map fc_name (function_calls ps') = map delta_name (filter named tcs)"
      by (rule Cons.IH)
    with True n ps show ?thesis
      by simp
  qed
qed

lemma delta_tool_call_parts_unnamed:
  "\<forall>tc \<in> set tcs. \<not> named tc \<Longrightarrow> delta_tool_call_parts parse tcs = Inr []"
proof (induction tcs)
  case Nil
  then show ?case by simp
next
  case (Cons tc tcs)
  then have "\<not> named tc" and rest: "delta_tool_call_parts parse tcs = Inr []"
    by simp_all
  then have "delta_tool_call_parts parse (tc # tcs) = delta_tool_call_parts parse tcs"
    by (intro delta_unnamed_step)
  with rest show ?case
    by (simp only:)
qed

text \<open>
  Claim C9. In the delta that \<^verbatim>\<open>convertStreamChunkToGeminiResponse\<close> returns, the
  FunctionCall parts are, in order, one per tool-call delta that carries a function name
  that is not empty, under that name: a delta whose name is absent or empty gives no
  part. Its arguments are not even parsed: a chunk in which no delta carries a name is
  translated without error into a delta with no FunctionCall part, whatever the
  argument fragments are.
\<close>

theorem unnamed_deltas_dropped:
  "(convertStreamChunkToGeminiResponse parse ck = Inr r
      \<longrightarrow> map fc_name (function_calls (response_parts r)) =
            map delta_name (filter named (chunk_tool_calls ck))) \<and>
   ((\<forall>tc \<in> set (chunk_tool_calls ck). \<not> named tc)
      \<longrightarrow> (\<exists>r'. convertStreamChunkToGeminiResponse parse ck = Inr r' \<and>
               function_calls (response_parts r') = []))"
proof (intro conjI impI)
  define d where "d = opt_chain (first (chunk_choices ck)) delta"
  define parts0 where "parts0 =
    (case opt_chain d d_content of
       Some s \<Rightarrow> if s \<noteq> [] then [text_part s] else []
     | None \<Rightarrow> [])"
  have no_calls: "function_calls parts0 = []"
    unfolding parts0_def by (simp split: option.splits)
  {
    assume run: "convertStreamChunkToGeminiResponse parse ck = Inr r"
    then obtain fcs where
      fcs: "(case opt_chain d d_tool_calls of
               Some tcs \<Rightarrow> delta_tool_call_parts parse tcs | None \<Rightarrow> Inr []) = Inr fcs"
      and r: "response_parts r = parts0 @ fcs"
      by (auto simp: convertStreamChunkToGeminiResponse_def d_def parts0_def Let_def
          split: sum.splits)
    from fcs have "map fc_name (function_calls fcs) =
        map delta_name (filter named (chunk_tool_calls ck))"
      by (cases "opt_chain d d_tool_calls")
         (auto simp: chunk_tool_calls_def d_def dest: delta_tool_call_parts_names)
    with r no_calls
    show "map fc_name (function_calls (response_parts r)) =
        map delta_name (filter named (chunk_tool_calls ck))"
      by (simp add: function_calls_append)
  }
  {
    assume unnamed: "\<forall>tc \<in> set (chunk_tool_calls ck). \<not> named tc"
    have "(case opt_chain d d_tool_calls of
             Some tcs \<Rightarrow> delta_tool_call_parts parse tcs | None \<Rightarrow> Inr []) = Inr []"
    proof (cases "opt_chain d d_tool_calls")
      case None
      then show ?thesis by simp
    next
      case (Some tcs)
      with unnamed have "\<forall>tc \<in> set tcs. \<not> named tc"
        by (simp add: chunk_tool_calls_def d_def)
      with Some show ?thesis
        by (simp add: delta_tool_call_parts_unnamed)
    qed
    with no_calls
    show "\<exists>r'. convertStreamChunkToGeminiResponse parse ck = Inr r' \<and>
        function_calls (response_parts r') = []"
      by (simp add: convertStreamChunkToGeminiResponse_def d_def parts0_def Let_def)
  }
qed

theorem unnamed_deltas_dropped_witness:
  "convertStreamChunkToGeminiResponse sample_parse
     (sample_chunk
        [sample_delta (Some ''f'') (Some ''{}''),
         sample_delta None (Some ''{oops''),
         sample_delta (Some []) (Some ''ops}''),
         sample_delta (Some ''g'') None]) =
     Inr \<lparr>candidates =
            [\<lparr>candidate_content =
                turn ''model''
                  [function_call_part (Some ''f'') (JObj []),
                   function_call_part (Some ''g'') (JObj [])],
              candidate_index = 0\<rparr>],
          usageMetadata = None, response_text = []\<rparr> \<and>
   convertStreamChunkToGeminiResponse sample_parse
     (sample_chunk [sample_delta None (Some ''{oops''), sample_delta (Some []) None]) =
     Inr \<lparr>candidates = [\<lparr>candidate_content = turn ''model'' [], candidate_index = 0\<rparr>],
          usageMetadata = None, response_text = []\<rparr>"
proof -
  have run: "convertStreamChunkToGeminiResponse sample_parse
     (sample_chunk
        [sample_delta (Some ''f'') (Some ''{}''),
         sample_delta None (Some ''{oops''),
         sample_delta (Some []) (Some ''ops}''),
         sample_delta (Some ''g'') None]) =
     Inr \<lparr>candidates =
            [\<lparr>candidate_content =
                turn ''model''
                  [function_call_part (Some ''f'') (JObj []),
                   function_call_part (Some ''g'') (JObj [])],
              candidate_index = 0\<rparr>],
          usageMetadata = None, response_text = []\<rparr>"
    by (simp add: convertStreamChunkToGeminiResponse_def sample_chunk_def sample_delta_def
        sample_parse_def function_call_part_def)
  show ?thesis
    using run
      unnamed_deltas_dropped
        [of sample_parse
            "sample_chunk
               [sample_delta (Some ''f'') (Some ''{}''),
                sample_delta None (Some ''{oops''),
                sample_delta (Some []) (Some ''ops}''),
                sample_delta (Some ''g'') None]"]
      unnamed_deltas_dropped
        [of sample_parse
            "sample_chunk [sample_delta None (Some ''{oops''), sample_delta (Some []) None]"]
    by (auto simp: chunk_tool_calls_def sample_chunk_def sample_delta_def named_def
        delta_name_def convertStreamChunkToGeminiResponse_def)
qed

end
